theory Spec2Isabelle
  imports Main
begin

section \<open>Values and strings of the JavaScript runtime\<close>

text \<open>
  The library (\<^verbatim>\<open>src/builder.ts\<close>) turns JSON-like data into an XML-like prompt.
  Its three exported helpers (\<^verbatim>\<open>escapeXml\<close>, \<^verbatim>\<open>objectToXml\<close>,
  \<^verbatim>\<open>replaceTemplateVariables\<close>) and the class \<^verbatim>\<open>PromptBuilder\<close> are embedded below,
  together with the built-ins of the language they call.

  A string is a list of characters (code units; \<^typ>\<open>char\<close> has eight bits, which covers
  every character the code tests for). A number is an integer, printed in decimal, which is
  what \<^verbatim>\<open>String\<close> and \<^verbatim>\<open>JSON.stringify\<close> print for the integers below \<open>10^21\<close>;
  fractions, \<^verbatim>\<open>NaN\<close> and the infinities are outside the embedding. An object is the
  list of its own enumerable properties in the order \<^verbatim>\<open>Object.entries\<close> lists them; its
  prototype is \<^verbatim>\<open>Object.prototype\<close>, as for an object literal or a parsed JSON text.
  \<open>JFun\<close> is a built-in function, known by its name: the one kind of non-JSON value that
  a plain object hands out (through its prototype). Accessors, proxies, array holes and
  \<^verbatim>\<open>toJSON\<close> methods are outside the embedding.
\<close>

datatype jsval =
    JUndefined
  | JNull
  | JBool bool
  | JNum int
  | JStr string
  | JArr "jsval list"
  | JObj "(string \<times> jsval) list"
  | JFun string

type_synonym props = "(string \<times> jsval) list"

abbreviation dquote :: char where "dquote \<equiv> CHR 0x22"
abbreviation squote :: char where "squote \<equiv> CHR 0x27"
abbreviation backslash :: char where "backslash \<equiv> CHR 0x5C"
abbreviation newline :: char where "newline \<equiv> CHR 0x0A"

text \<open>\<^verbatim>\<open>Array.prototype.join\<close> on an array of strings.\<close>

fun join :: "string \<Rightarrow> string list \<Rightarrow> string" where
  "join sep [] = []"
| "join sep [x] = x"
| "join sep (x # y # ys) = x @ sep @ join sep (y # ys)"

text \<open>
  Decimal numerals: \<^verbatim>\<open>Number.prototype.toString\<close> on an integer of magnitude below
  \<open>10^21\<close>. From there on the runtime prints exponent notation, which is not modelled:
  no statement below depends on which text a number prints as.
\<close>

fun digits :: "nat \<Rightarrow> string" where
  "digits n =
     (if n < 10 then [''0123456789'' ! n]
      else digits (n div 10) @ [''0123456789'' ! (n mod 10)])"

declare digits.simps [simp del]

definition Number_toString :: "int \<Rightarrow> string" where
  "Number_toString n = (if n < 0 then CHR ''-'' # digits (nat (- n)) else digits (nat n))"

text \<open>
  \<^verbatim>\<open>String(v)\<close>, which is also what a template literal \<^verbatim>\<open>${v}\<close> prints. An array prints
  its elements joined by commas (\<^verbatim>\<open>null\<close> and \<^verbatim>\<open>undefined\<close> as nothing), a plain
  object prints \<^verbatim>\<open>[object Object]\<close>, and a built-in function prints its native-code
  text (shown as V8 prints it; engines differ in the white space).
\<close>

fun String_js :: "jsval \<Rightarrow> string" where
  "String_js JUndefined = ''undefined''"
| "String_js JNull = ''null''"
| "String_js (JBool b) = (if b then ''true'' else ''false'')"
| "String_js (JNum n) = Number_toString n"
| "String_js (JStr s) = s"
| "String_js (JArr xs) =
     join '','' (map (\<lambda>x. if x = JNull \<or> x = JUndefined then [] else String_js x) xs)"
| "String_js (JObj ps) = ''[object Object]''"
| "String_js (JFun name) = ''function '' @ name @ ''() { [native code] }''"

subsection \<open>\<^verbatim>\<open>JSON.stringify\<close>\<close>

definition hex_digit :: "nat \<Rightarrow> char" where
  "hex_digit d = ''0123456789abcdef'' ! d"

text \<open>The escapes of \<^verbatim>\<open>QuoteJSONString\<close>.\<close>

definition json_escape_char :: "char \<Rightarrow> string" where
  "json_escape_char c =
     (if c = dquote then [backslash, dquote]
      else if c = backslash then [backslash, backslash]
      else if c = CHR 0x08 then [backslash, CHR ''b'']
      else if c = CHR 0x0C then [backslash, CHR ''f'']
      else if c = CHR 0x0A then [backslash, CHR ''n'']
      else if c = CHR 0x0D then [backslash, CHR ''r'']
      else if c = CHR 0x09 then [backslash, CHR ''t'']
      else if (of_char c :: nat) < 32
        then [backslash, CHR ''u'', CHR ''0'', CHR ''0'',
              hex_digit ((of_char c :: nat) div 16), hex_digit ((of_char c :: nat) mod 16)]
      else [c])"

definition QuoteJSONString :: "string \<Rightarrow> string" where
  "QuoteJSONString s = dquote # concat (map json_escape_char s) @ [dquote]"

text \<open>
  \<^verbatim>\<open>JSON.stringify(v)\<close> with no replacer and no indentation. \<open>None\<close> is the result
  \<^verbatim>\<open>undefined\<close> (for \<^verbatim>\<open>undefined\<close> and for a function); inside an array such an element
  prints \<^verbatim>\<open>null\<close>, inside an object the property is left out.
\<close>

fun JSON_stringify :: "jsval \<Rightarrow> string option" where
  "JSON_stringify JUndefined = None"
| "JSON_stringify (JFun f) = None"
| "JSON_stringify JNull = Some ''null''"
| "JSON_stringify (JBool b) = Some (if b then ''true'' else ''false'')"
| "JSON_stringify (JNum n) = Some (Number_toString n)"
| "JSON_stringify (JStr s) = Some (QuoteJSONString s)"
| "JSON_stringify (JArr xs) =
     Some (''['' @
       join '','' (map (\<lambda>x. case JSON_stringify x of None \<Rightarrow> ''null'' | Some t \<Rightarrow> t) xs)
       @ '']'')"
| "JSON_stringify (JObj ps) =
     Some (''{'' @
       join '','' (concat (map (\<lambda>(k, v).
         case JSON_stringify v of
           None \<Rightarrow> []
         | Some t \<Rightarrow> [QuoteJSONString k @ '':'' @ t]) ps))
       @ ''}'')"

text \<open>
  A string option where the code expects a string: the value \<^verbatim>\<open>undefined\<close> is printed
  as the text \<^verbatim>\<open>undefined\<close>, by a template literal and by \<^verbatim>\<open>String.prototype.replace\<close>
  for the result of its callback alike.
\<close>

definition text_of :: "string option \<Rightarrow> string" where
  "text_of r = (case r of None \<Rightarrow> ''undefined'' | Some t \<Rightarrow> t)"

subsection \<open>Properties of a plain object\<close>

text \<open>
  What every plain object inherits from \<^verbatim>\<open>Object.prototype\<close>: eleven functions and the
  accessor \<^verbatim>\<open>__proto__\<close>.
\<close>

definition Object_prototype_functions :: "string list" where
  "Object_prototype_functions =
     [''constructor'', ''__defineGetter__'', ''__defineSetter__'', ''hasOwnProperty'',
      ''__lookupGetter__'', ''__lookupSetter__'', ''isPrototypeOf'',
      ''propertyIsEnumerable'', ''toString'', ''valueOf'', ''toLocaleString'']"

definition inherited :: "string \<Rightarrow> bool" where
  "inherited key \<longleftrightarrow> key = ''__proto__'' \<or> key \<in> set Object_prototype_functions"

definition own :: "string \<Rightarrow> props \<Rightarrow> bool" where
  "own key obj \<longleftrightarrow> key \<in> set (map fst obj)"

text \<open>\<^verbatim>\<open>key in obj\<close>: own properties first, then the prototype chain.\<close>

definition js_in :: "string \<Rightarrow> props \<Rightarrow> bool" where
  "js_in key obj \<longleftrightarrow> own key obj \<or> inherited key"

text \<open>
  \<^verbatim>\<open>obj[key]\<close>. The inherited \<^verbatim>\<open>__proto__\<close> reads as \<^verbatim>\<open>Object.prototype\<close> itself,
  an object with no enumerable property of its own: \<open>JObj []\<close> to every function here.
  The inherited \<^verbatim>\<open>constructor\<close> is the function \<^verbatim>\<open>Object\<close>; each of the other
  inherited functions bears the name of its key.
\<close>

definition js_get :: "props \<Rightarrow> string \<Rightarrow> jsval" where
  "js_get obj key =
     (case map_of obj key of
        Some v \<Rightarrow> v
      | None \<Rightarrow>
          if key = ''__proto__'' then JObj []
          else if key = ''constructor'' then JFun ''Object''
          else if key \<in> set Object_prototype_functions then JFun key
          else JUndefined)"

text \<open>
  An array index is a canonical numeral below \<open>2^32 - 1\<close>: a key that is the decimal text
  of its own numeric value. \<^verbatim>\<open>Object.entries\<close> lists such keys first, in ascending
  numeric order, and the other keys after them in the order they were created in.
\<close>

definition digits_value :: "string \<Rightarrow> nat" where
  "digits_value k = foldl (\<lambda>a c. 10 * a + (of_char c - 48)) 0 k"

definition array_index :: "string \<Rightarrow> nat option" where
  "array_index k =
     (if digits (digits_value k) = k \<and> digits_value k < 4294967295
      then Some (digits_value k) else None)"

fun insert_index :: "nat \<Rightarrow> string \<Rightarrow> jsval \<Rightarrow> props \<Rightarrow> props" where
  "insert_index n key v [] = [(key, v)]"
| "insert_index n key v ((k, w) # ps) =
     (case array_index k of
        Some m \<Rightarrow> if m < n then (k, w) # insert_index n key v ps
                  else (key, v) # (k, w) # ps
      | None \<Rightarrow> (key, v) # (k, w) # ps)"

text \<open>
  Writing an own property: an existing one keeps its place; a new one is created at the
  place \<^verbatim>\<open>Object.entries\<close> will list it.
\<close>

definition put_property :: "props \<Rightarrow> string \<Rightarrow> jsval \<Rightarrow> props" where
  "put_property obj key v =
     (if own key obj then map (\<lambda>(k, w). if k = key then (k, v) else (k, w)) obj
      else case array_index key of
             Some n \<Rightarrow> insert_index n key v obj
           | None \<Rightarrow> obj @ [(key, v)])"

text \<open>
  \<^verbatim>\<open>obj[key] = v\<close> on an object that was created as \<^verbatim>\<open>{}\<close>. Beside its own properties
  the object has a prototype, of which one thing matters here: whether the name
  \<^verbatim>\<open>__proto__\<close> still reaches the accessor of \<^verbatim>\<open>Object.prototype\<close> (the flag; true at
  creation). While it does, assigning \<^verbatim>\<open>__proto__\<close> creates no property: the accessor
  makes \<open>v\<close> the prototype when \<open>v\<close> is \<^verbatim>\<open>null\<close> or an object, and ignores any other
  \<open>v\<close>. After \<^verbatim>\<open>null\<close>, or after an object that owns a property \<^verbatim>\<open>__proto__\<close>, the
  accessor is out of reach and \<^verbatim>\<open>__proto__\<close> is a key like any other. Every other key
  is written as an own property whatever the prototype is, the properties found on these
  prototypes being writable.
\<close>

definition js_set :: "bool \<times> props \<Rightarrow> string \<Rightarrow> jsval \<Rightarrow> bool \<times> props" where
  "js_set obj key v =
     (let (accessor, ps) = obj
      in if key = ''__proto__'' \<and> accessor then
           (case v of
              JNull \<Rightarrow> (False, ps)
            | JObj q \<Rightarrow> (\<not> own ''__proto__'' q, ps)
            | _ \<Rightarrow> (True, ps))
         else (accessor, put_property ps key v))"

section \<open>The escaper\<close>

text \<open>\<^verbatim>\<open>str.replace(/c/g, r)\<close> for a single character \<open>c\<close> and a replacement without \<^verbatim>\<open>$\<close>.\<close>

definition replaceAll :: "char \<Rightarrow> string \<Rightarrow> string \<Rightarrow> string" where
  "replaceAll c r str = concat (map (\<lambda>x. if x = c then r else [x]) str)"

definition escapeXml :: "string \<Rightarrow> string" where
  "escapeXml str =
     replaceAll squote ''&apos;''
       (replaceAll dquote ''&quot;''
         (replaceAll (CHR ''>'') ''&gt;''
           (replaceAll (CHR ''<'') ''&lt;''
             (replaceAll (CHR ''&'') ''&amp;'' str))))"

text \<open>The escaper as the specification words it: one entity per reserved character.\<close>

definition entity :: "char \<Rightarrow> string" where
  "entity c =
     (if c = CHR ''&'' then ''&amp;''
      else if c = CHR ''<'' then ''&lt;''
      else if c = CHR ''>'' then ''&gt;''
      else if c = dquote then ''&quot;''
      else if c = squote then ''&apos;''
      else [c])"

definition reserved :: "char \<Rightarrow> bool" where
  "reserved c \<longleftrightarrow> c = CHR ''&'' \<or> c = CHR ''<'' \<or> c = CHR ''>'' \<or> c = dquote \<or> c = squote"

section \<open>The structural serializer\<close>

text \<open>
  \<open>metadata\<close> is the optional second argument, an object; only its \<^verbatim>\<open>index\<close> is read.
  The branches stand in the order of the source: primitives, arrays, \<^verbatim>\<open>null\<close> and
  \<^verbatim>\<open>undefined\<close>, objects, and last whatever is left (here: functions).
\<close>

lemma size_enumerate_item:
  "(index, item) \<in> set (enumerate n xs) \<Longrightarrow> size item < Suc (size_list size xs)"
  by (auto simp: in_set_enumerate_eq less_Suc_eq_le intro!: size_list_estimation')

function (sequential) objectToXml :: "jsval \<Rightarrow> props option \<Rightarrow> string" where
  "objectToXml (JStr s) metadata = escapeXml (String_js (JStr s))"
| "objectToXml (JNum n) metadata = String_js (JNum n)"
| "objectToXml (JBool b) metadata = String_js (JBool b)"
| "objectToXml (JArr obj) metadata =
     join [] (map (\<lambda>(index, item). objectToXml item (Some [(''index'', JNum (int index))]))
       (enumerate 0 obj))"
| "objectToXml JNull metadata = []"
| "objectToXml JUndefined metadata = []"
| "objectToXml (JObj obj) metadata =
     join [] (map (\<lambda>(key, value).
       let xmlValue = objectToXml value None
       in ''<'' @ key @
          (case metadata of
             None \<Rightarrow> []
           | Some m \<Rightarrow>
               if js_in ''index'' m
               then '' index='' @ [dquote] @ String_js (js_get m ''index'') @ [dquote]
               else [])
          @ ''>'' @ xmlValue @ ''</'' @ key @ ''>'') obj)"
| "objectToXml (JFun f) metadata = String_js (JFun f)"
  by pat_completeness auto
termination
proof (relation "measure (\<lambda>(obj, metadata). size obj)", goal_cases)
  case 1
  show ?case by simp
next
  case (2 obj metadata p index item)
  then show ?case using size_enumerate_item [of index item 0 obj] by simp
next
  case (3 obj metadata p key "value")
  then have "size value < Suc (size_list (size_prod (\<lambda>x. 0) size) obj)"
    by (auto simp: less_Suc_eq_le intro!: size_list_estimation' [where x = "(key, value)"])
  then show ?case by simp
qed

section \<open>The template interpolator\<close>

text \<open>The class \<^verbatim>\<open>\w\<close> of the pattern: letters, digits and the underscore.\<close>

definition word_char :: "char \<Rightarrow> bool" where
  "word_char c \<longleftrightarrow>
     c \<in> set ''abcdefghijklmnopqrstuvwxyzABCDEFGHIJKLMNOPQRSTUVWXYZ0123456789_''"

text \<open>
  One attempt of the pattern \<^verbatim>\<open>/\{\{(\w+)\}\}/\<close> at the start of a string: the captured key
  and the text after the match. \<^verbatim>\<open>\w+\<close> is greedy, and giving characters back never helps,
  since the character after a shorter key is a word character and not a brace.
\<close>

fun match_placeholder :: "string \<Rightarrow> (string \<times> string) option" where
  "match_placeholder (c1 # c2 # rest) =
     (if c1 = CHR ''{'' \<and> c2 = CHR ''{'' then
        let key = takeWhile word_char rest;
            after = dropWhile word_char rest
        in if key \<noteq> [] \<and> take 2 after = ''}}'' then Some (key, drop 2 after) else None
      else None)"
| "match_placeholder _ = None"

text \<open>The callback of the replacement; \<open>None\<close> is the result \<^verbatim>\<open>undefined\<close>.\<close>

definition replacer :: "props \<Rightarrow> string \<Rightarrow> string \<Rightarrow> string option" where
  "replacer values match key =
     (if js_in key values then
        let value = js_get values key
        in JSON_stringify value
      else Some match)"

lemma match_placeholder_shorter:
  "match_placeholder s = Some (key, rest) \<Longrightarrow> length rest < length s"
proof (induction s rule: match_placeholder.induct)
  case (1 c1 c2 r)
  then have "rest = drop 2 (dropWhile word_char r)"
    by (auto simp: Let_def split: if_splits)
  moreover have "length (dropWhile word_char r) \<le> length r"
    by (rule length_dropWhile_le)
  ultimately show ?case by simp
qed simp_all

text \<open>
  \<^verbatim>\<open>template.replace(/\{\{(\w+)\}\}/g, callback)\<close>: the matches are found from left to
  right and do not overlap; where the pattern does not match, the character is copied and
  the scan moves on by one.
\<close>

function replaceTemplateVariables :: "string \<Rightarrow> props \<Rightarrow> string" where
  "replaceTemplateVariables [] values = []"
| "replaceTemplateVariables (c # cs) values =
     (case match_placeholder (c # cs) of
        Some (key, rest) \<Rightarrow>
          text_of (replacer values (''{{'' @ key @ ''}}'') key)
            @ replaceTemplateVariables rest values
      | None \<Rightarrow> c # replaceTemplateVariables cs values)"
  by pat_completeness auto
termination
  by (relation "measure (\<lambda>(template, values). length template)")
    (auto dest: match_placeholder_shorter)

section \<open>The builder\<close>

record Example =
  input :: jsval
  "output" :: jsval

text \<open>
  The private fields of the class. A builder object lives in a store of builders and is
  known by its reference, so that a method that returned its receiver, or wrote to it,
  would show. The arrays of a builder are copied by every method and never written in
  place, so they are values here.
\<close>

record PromptBuilder =
  b_instruction :: string
  b_examples :: "Example list"
  b_taskKeys :: "string list"

type_synonym builders = "PromptBuilder list"

definition new_PromptBuilder :: "builders \<Rightarrow> nat \<times> builders" where
  "new_PromptBuilder h =
     (length h, h @ [\<lparr>b_instruction = [], b_examples = [], b_taskKeys = []\<rparr>])"

definition instruction :: "nat \<Rightarrow> string \<Rightarrow> builders \<Rightarrow> nat \<times> builders" where
  "instruction this template h =
     (let (builder, h) = new_PromptBuilder h;
          h = h[builder := (h ! builder)\<lparr>b_instruction := template\<rparr>];
          h = h[builder := (h ! builder)\<lparr>b_examples := b_examples (h ! this)\<rparr>];
          h = h[builder := (h ! builder)\<lparr>b_taskKeys := b_taskKeys (h ! this)\<rparr>]
      in (builder, h))"

definition example :: "nat \<Rightarrow> jsval \<Rightarrow> jsval \<Rightarrow> builders \<Rightarrow> nat \<times> builders" where
  "example this inp out h =
     (let (builder, h) = new_PromptBuilder h;
          h = h[builder := (h ! builder)\<lparr>b_instruction := b_instruction (h ! this)\<rparr>];
          h = h[builder := (h ! builder)
                 \<lparr>b_examples := b_examples (h ! this) @ [\<lparr>input = inp, output = out\<rparr>]\<rparr>];
          h = h[builder := (h ! builder)\<lparr>b_taskKeys := b_taskKeys (h ! this)\<rparr>]
      in (builder, h))"

definition taskKey :: "nat \<Rightarrow> string \<Rightarrow> builders \<Rightarrow> nat \<times> builders" where
  "taskKey this key h =
     (let (builder, h) = new_PromptBuilder h;
          h = h[builder := (h ! builder)\<lparr>b_instruction := b_instruction (h ! this)\<rparr>];
          h = h[builder := (h ! builder)\<lparr>b_examples := b_examples (h ! this)\<rparr>];
          h = h[builder := (h ! builder)\<lparr>b_taskKeys := b_taskKeys (h ! this) @ [key]\<rparr>]
      in (builder, h))"

definition promptBuilder :: "builders \<Rightarrow> nat \<times> builders" where
  "promptBuilder h = new_PromptBuilder h"

section \<open>The finalized prompt function\<close>

text \<open>
  The value bag is an object of the caller's, known by its reference into a store of plain
  objects; the function returns its text and the store it leaves behind. \<open>this\<close> is the
  configuration the closure captured.
\<close>

type_synonym objects = "props list"

definition new_object :: "objects \<Rightarrow> nat \<times> objects" where
  "new_object h = (length h, h @ [[]])"

text \<open>
  The callback of the reduce, \<^verbatim>\<open>acc\<close> and \<^verbatim>\<open>values\<close> being references. The store
  holds the own properties of every object; the prototype flag of \<^verbatim>\<open>acc\<close>, the one
  object whose prototype an assignment here can change, is carried beside the store.
\<close>

definition reducer :: "nat \<Rightarrow> nat \<Rightarrow> bool \<times> objects \<Rightarrow> string \<Rightarrow> bool \<times> objects" where
  "reducer values acc state key =
     (let (accessor, h) = state
      in if js_in key (h ! values) then
           let (accessor, ps) = js_set (accessor, h ! acc) key (js_get (h ! values) key)
           in (accessor, h[acc := ps])
         else (accessor, h))"

definition build :: "PromptBuilder \<Rightarrow> nat \<Rightarrow> objects \<Rightarrow> string \<times> objects" where
  "build this values h =
     (let interpolatedPrompt = replaceTemplateVariables (b_instruction this) (h ! values);
          result = ''<instructions>'' @ interpolatedPrompt @ ''</instructions>'';
          result =
            (if length (b_examples this) > 0 then
               result @ [newline, newline] @ ''<examples>'' @
               join [] (map (\<lambda>(index, example).
                   [newline] @ ''<example index='' @ [dquote] @ String_js (JNum (int index))
                   @ [dquote] @ ''><input>'' @ objectToXml (input example) None
                   @ ''</input><output>'' @ text_of (JSON_stringify (output example))
                   @ ''</output></example>'')
                 (enumerate 0 (b_examples this)))
               @ [newline] @ ''</examples>''
             else result)
      in if length (b_taskKeys this) > 0 then
           let (taskObject, h) = new_object h;
               (accessor, h) = foldl (reducer values taskObject) (True, h) (b_taskKeys this);
               taskXml = objectToXml (JObj (h ! taskObject)) None
           in (result @ [newline, newline] @ ''<task>'' @ taskXml @ ''</task>'', h)
         else (result, h))"

text \<open>
  \<^verbatim>\<open>taskObject\<close> after the reduce, as a function of the bag's properties alone: its
  prototype flag and its properties (\<open>task_state\<close>), and the properties by themselves.
\<close>

definition task_state :: "string list \<Rightarrow> props \<Rightarrow> bool \<times> props" where
  "task_state keys bag =
     foldl (\<lambda>acc key. if js_in key bag then js_set acc key (js_get bag key) else acc)
       (True, []) keys"

definition taskObject :: "string list \<Rightarrow> props \<Rightarrow> props" where
  "taskObject keys bag = snd (task_state keys bag)"

section \<open>The specification's reading of the output\<close>

text \<open>
  The examples section and the task section as the specification lays them out, each empty
  when its sequence is empty.
\<close>

definition examples_section :: "Example list \<Rightarrow> string" where
  "examples_section es =
     (if es = [] then []
      else [newline, newline] @ ''<examples>'' @
        concat (map (\<lambda>i.
          [newline] @ ''<example index='' @ [dquote] @ digits i @ [dquote] @ ''><input>''
          @ objectToXml (input (es ! i)) None @ ''</input><output>''
          @ text_of (JSON_stringify (output (es ! i))) @ ''</output></example>'')
          [0..<length es])
        @ [newline] @ ''</examples>'')"

definition task_section :: "string list \<Rightarrow> props \<Rightarrow> string" where
  "task_section keys bag =
     (if keys = [] then []
      else [newline, newline] @ ''<task>'' @ objectToXml (JObj (taskObject keys bag)) None
        @ ''</task>'')"

text \<open>
  The task sub-mapping as the specification words it: the declared keys that the bag holds,
  each once, in declared order, bound to the bag's values.
\<close>

definition firsts :: "string list \<Rightarrow> string list" where
  "firsts ks = rev (remdups (rev ks))"

definition present_keys :: "string list \<Rightarrow> props \<Rightarrow> string list" where
  "present_keys keys bag = firsts (filter (\<lambda>k. own k bag) keys)"

definition bind :: "props \<Rightarrow> string \<Rightarrow> string \<times> jsval" where
  "bind bag k = (k, the (map_of bag k))"

definition submapping_claimed :: "string list \<Rightarrow> props \<Rightarrow> props" where
  "submapping_claimed keys bag = map (bind bag) (present_keys keys bag)"

text \<open>
  The prompt as the specification lays it out, around the task sub-mapping as it words it.
\<close>

definition prompt_claimed :: "PromptBuilder \<Rightarrow> props \<Rightarrow> string" where
  "prompt_claimed this bag =
     ''<instructions>'' @ replaceTemplateVariables (b_instruction this) bag
       @ ''</instructions>'' @ examples_section (b_examples this)
     @ (if b_taskKeys this = [] then []
        else [newline, newline] @ ''<task>''
          @ objectToXml (JObj (submapping_claimed (b_taskKeys this) bag)) None @ ''</task>'')"

text \<open>
  The order in which a plain object lists keys that were created in the order \<open>ks\<close>:
  the array indices in ascending numeric order, then the other keys as created.
\<close>

definition is_index :: "string \<Rightarrow> bool" where
  "is_index k \<longleftrightarrow> array_index k \<noteq> None"

definition index_of :: "string \<Rightarrow> nat" where
  "index_of k = the (array_index k)"

definition entries_order :: "string list \<Rightarrow> string list" where
  "entries_order ks =
     sort_key index_of (filter is_index ks) @ filter (\<lambda>k. \<not> is_index k) ks"

section \<open>Evaluation\<close>

lemmas js_run =
  build_def Let_def new_object_def reducer_def js_in_def own_def inherited_def
  Object_prototype_functions_def js_get_def js_set_def put_property_def array_index_def
  digits_value_def
  digits.simps word_char_def replacer_def text_of_def QuoteJSONString_def
  json_escape_char_def Number_toString_def escapeXml_def replaceAll_def taskObject_def
  task_state_def

lemma join_empty: "join [] xs = concat xs"
  by (induction "[] :: string" xs rule: join.induct) simp_all

lemma enumerate_map_index: "map f (enumerate 0 xs) = map (\<lambda>i. f (i, xs ! i)) [0..<length xs]"
  by (rule nth_equalityI) (simp_all add: nth_enumerate_eq)

section \<open>The escaper replaces five characters, each once\<close>

lemma replaceAll_Nil: "replaceAll c r [] = []"
  by (simp add: replaceAll_def)

lemma replaceAll_Cons: "replaceAll c r (x # xs) = (if x = c then r else [x]) @ replaceAll c r xs"
  by (simp add: replaceAll_def)

lemma replaceAll_append: "replaceAll c r (xs @ ys) = replaceAll c r xs @ replaceAll c r ys"
  by (simp add: replaceAll_def)

lemma escapeXml_Nil: "escapeXml [] = []"
  by (simp add: escapeXml_def replaceAll_Nil)

lemma escapeXml_Cons: "escapeXml (x # xs) = entity x @ escapeXml xs"
  by (simp add: escapeXml_def entity_def replaceAll_Cons replaceAll_append replaceAll_Nil)

text \<open>
  C4. For every string, \<open>escapeXml\<close> replaces every occurrence of each of the five reserved
  characters by its entity and copies every other character: the result is the
  concatenation, character by character, of \<open>entity\<close>. The ampersand is replaced first,
  so the ampersand that the four later replacements write is not escaped again
  (\<open><\<close> becomes \<^verbatim>\<open>&lt;\<close>, not \<^verbatim>\<open>&amp;lt;\<close>).
\<close>

theorem escapeXml_entities: "escapeXml s = concat (map entity s)"
  by (induction s) (simp_all add: escapeXml_Nil escapeXml_Cons)

theorem escapeXml_entities_witness:
  "escapeXml (''<tag attr='' @ [dquote] @ ''value'' @ [dquote] @ ''>5 < 10 & '' @ [squote]
       @ ''test'' @ [squote] @ ''</tag>'') =
     ''&lt;tag attr=&quot;value&quot;&gt;5 &lt; 10 &amp; &apos;test&apos;&lt;/tag&gt;''"
  using escapeXml_entities
    [of "''<tag attr='' @ [dquote] @ ''value'' @ [dquote] @ ''>5 < 10 & '' @ [squote]
       @ ''test'' @ [squote] @ ''</tag>''"]
  by (simp add: entity_def)

lemma entity_grows: "reserved c \<Longrightarrow> 1 < length (entity c)"
  by (auto simp: entity_def reserved_def)

lemma length_escapeXml_le: "length s \<le> length (escapeXml s)"
proof (induction s)
  case Nil
  show ?case by (simp add: escapeXml_Nil)
next
  case (Cons c s)
  have "1 \<le> length (entity c)" by (simp add: entity_def)
  with Cons show ?case by (simp add: escapeXml_Cons)
qed

lemma length_escapeXml_less: "list_ex reserved s \<Longrightarrow> length s < length (escapeXml s)"
proof (induction s)
  case Nil
  then show ?case by simp
next
  case (Cons c s)
  show ?case
  proof (cases "reserved c")
    case True
    then have "1 < length (entity c)" by (rule entity_grows)
    moreover have "length s \<le> length (escapeXml s)" by (rule length_escapeXml_le)
    ultimately show ?thesis by (simp add: escapeXml_Cons)
  next
    case False
    with Cons.prems have "list_ex reserved s" by simp
    then have "length s < length (escapeXml s)" by (rule Cons.IH)
    moreover have "1 \<le> length (entity c)" by (simp add: entity_def)
    ultimately show ?thesis by (simp add: escapeXml_Cons)
  qed
qed

lemma entity_reserved: "reserved c \<Longrightarrow> list_ex reserved (entity c)"
  by (auto simp: entity_def reserved_def)

lemma escapeXml_keeps_reserved: "list_ex reserved s \<Longrightarrow> list_ex reserved (escapeXml s)"
proof (induction s)
  case Nil
  then show ?case by simp
next
  case (Cons c s)
  show ?case
  proof (cases "reserved c")
    case True
    then have "list_ex reserved (entity c)" by (rule entity_reserved)
    then show ?thesis by (simp add: escapeXml_Cons)
  next
    case False
    with Cons.prems have "list_ex reserved s" by simp
    then have "list_ex reserved (escapeXml s)" by (rule Cons.IH)
    then show ?thesis by (simp add: escapeXml_Cons)
  qed
qed

text \<open>
  C8. The escaper is not idempotent: \<^verbatim>\<open>&amp;\<close> escapes to \<^verbatim>\<open>&amp;amp;\<close>, and for every
  string that holds a reserved character, escaping the escaped string gives a different
  (longer) string than escaping once.
\<close>

theorem escapeXml_not_idempotent:
  "escapeXml ''&amp;'' = ''&amp;amp;'' \<and>
   (list_ex reserved s \<longrightarrow> escapeXml (escapeXml s) \<noteq> escapeXml s)"
proof
  show "escapeXml ''&amp;'' = ''&amp;amp;''"
    by (simp add: escapeXml_Cons escapeXml_Nil entity_def)
  show "list_ex reserved s \<longrightarrow> escapeXml (escapeXml s) \<noteq> escapeXml s"
  proof
    assume "list_ex reserved s"
    then have "list_ex reserved (escapeXml s)" by (rule escapeXml_keeps_reserved)
    then have "length (escapeXml s) < length (escapeXml (escapeXml s))"
      by (rule length_escapeXml_less)
    then show "escapeXml (escapeXml s) \<noteq> escapeXml s" by auto
  qed
qed

theorem escapeXml_not_idempotent_witness:
  "list_ex reserved ''&amp;'' \<and> escapeXml ''&amp;'' = ''&amp;amp;'' \<and>
   escapeXml (escapeXml ''&amp;'') = ''&amp;amp;amp;'' \<and>
   escapeXml (escapeXml ''&amp;'') \<noteq> escapeXml ''&amp;''"
  using escapeXml_not_idempotent [of "''&amp;''"]
  by (simp add: reserved_def escapeXml_Cons escapeXml_Nil entity_def)

section \<open>The serializer\<close>

text \<open>
  C6. With no positional metadata, \<open>objectToXml\<close> returns the escaped text of a string,
  the decimal text of a number, \<^verbatim>\<open>true\<close> or \<^verbatim>\<open>false\<close> for a boolean, and the empty
  string for \<^verbatim>\<open>null\<close> and for \<^verbatim>\<open>undefined\<close>.
\<close>

theorem objectToXml_primitives:
  "objectToXml (JStr s) None = escapeXml s \<and>
   objectToXml (JNum n) None = Number_toString n \<and>
   objectToXml (JBool b) None = (if b then ''true'' else ''false'') \<and>
   objectToXml JNull None = [] \<and>
   objectToXml JUndefined None = []"
  by simp

theorem objectToXml_primitives_witness:
  "objectToXml (JStr ''Tom & Jerry'') None = ''Tom &amp; Jerry'' \<and>
   objectToXml (JNum 42) None = ''42'' \<and>
   objectToXml (JBool True) None = ''true'' \<and>
   objectToXml JNull None = [] \<and>
   objectToXml JUndefined None = []"
  using objectToXml_primitives [of "''Tom & Jerry''" 42 True]
  by (simp add: escapeXml_Cons escapeXml_Nil entity_def Number_toString_def digits.simps)

text \<open>
  C3. For an array of \<open>k\<close> plain objects, whatever metadata the call itself received, the
  serializer writes for each object \<open>i = 0, ..., k - 1\<close> in turn, and for each of its fields
  \<open>f\<close> in turn, the element \<^verbatim>\<open><f index="i">...</f>\<close>, with nothing wrapped around the
  fields of one object; the content of each element is the serialization of the field's
  value with no metadata, so the index is stamped on the fields of the array's items only.
\<close>

theorem objectToXml_array_of_objects:
  "objectToXml (JArr (map JObj objs)) metadata =
     concat (map (\<lambda>i.
       concat (map (\<lambda>(f, v).
         ''<'' @ f @ '' index='' @ [dquote] @ digits i @ [dquote] @ ''>''
           @ objectToXml v None @ ''</'' @ f @ ''>'') (objs ! i)))
       [0..<length objs])"
proof -
  have item: "objectToXml (JObj ps) (Some [(''index'', JNum (int i))]) =
      concat (map (\<lambda>(f, v).
         ''<'' @ f @ '' index='' @ [dquote] @ digits i @ [dquote] @ ''>''
           @ objectToXml v None @ ''</'' @ f @ ''>'') ps)" for i ps
    by (simp add: join_empty js_in_def own_def js_get_def Number_toString_def case_prod_unfold)
  have lhs: "objectToXml (JArr (map JObj objs)) metadata =
      concat (map (\<lambda>i. objectToXml (map JObj objs ! i) (Some [(''index'', JNum (int i))]))
          [0..<length objs])"
    by (simp add: join_empty enumerate_map_index)
  have eq: "map (\<lambda>i. objectToXml (map JObj objs ! i) (Some [(''index'', JNum (int i))]))
          [0..<length objs] =
        map (\<lambda>i. concat (map (\<lambda>(f, v).
         ''<'' @ f @ '' index='' @ [dquote] @ digits i @ [dquote] @ ''>''
           @ objectToXml v None @ ''</'' @ f @ ''>'') (objs ! i))) [0..<length objs]"
    by (rule map_cong [OF refl]) (simp add: item del: objectToXml.simps)
  show ?thesis
    by (simp only: lhs eq)
qed

theorem objectToXml_array_of_objects_witness:
  "objectToXml (JArr (map JObj [[(''id'', JNum 1), (''name'', JStr ''First'')],
                               [(''id'', JNum 2), (''name'', JStr ''Second'')]])) None =
     ''<id index='' @ [dquote] @ ''0'' @ [dquote] @ ''>1</id>'' @
     ''<name index='' @ [dquote] @ ''0'' @ [dquote] @ ''>First</name>'' @
     ''<id index='' @ [dquote] @ ''1'' @ [dquote] @ ''>2</id>'' @
     ''<name index='' @ [dquote] @ ''1'' @ [dquote] @ ''>Second</name>''"
  using objectToXml_array_of_objects
    [of "[[(''id'', JNum 1), (''name'', JStr ''First'')],
          [(''id'', JNum 2), (''name'', JStr ''Second'')]]" None]
  by (simp add: upt_rec [of 0] upt_rec [of 1] Number_toString_def digits.simps
      escapeXml_Cons escapeXml_Nil entity_def)

section \<open>The interpolator\<close>

lemma not_word_brace: "\<not> word_char (CHR ''}'')"
  by (simp add: word_char_def)

lemma match_placeholder_iff:
  "match_placeholder s = Some (key, rest) \<longleftrightarrow>
     key \<noteq> [] \<and> list_all word_char key \<and> s = ''{{'' @ key @ ''}}'' @ rest"
proof
  assume m: "match_placeholder s = Some (key, rest)"
  then obtain c1 c2 r where s: "s = c1 # c2 # r"
    by (cases s rule: match_placeholder.cases) simp_all
  let ?after = "dropWhile word_char r"
  from m s have c: "c1 = CHR ''{''" "c2 = CHR ''{''"
    and key: "key = takeWhile word_char r" "key \<noteq> []"
    and after: "take 2 ?after = ''}}''" and rest: "rest = drop 2 ?after"
    by (auto simp: Let_def split: if_splits)
  have "r = key @ take 2 ?after @ drop 2 ?after"
    by (simp add: key(1))
  then have "r = key @ ''}}'' @ rest"
    by (simp only: after rest)
  moreover have "list_all word_char key"
    by (simp add: key(1) list_all_iff) (meson set_takeWhileD)
  ultimately show "key \<noteq> [] \<and> list_all word_char key \<and> s = ''{{'' @ key @ ''}}'' @ rest"
    using s c key(2) by simp
next
  assume a: "key \<noteq> [] \<and> list_all word_char key \<and> s = ''{{'' @ key @ ''}}'' @ rest"
  then have all: "\<And>x. x \<in> set key \<Longrightarrow> word_char x" by (simp add: list_all_iff)
  have t: "takeWhile word_char (key @ CHR ''}'' # CHR ''}'' # rest) = key"
    using all not_word_brace by simp
  have d: "dropWhile word_char (key @ CHR ''}'' # CHR ''}'' # rest) = CHR ''}'' # CHR ''}'' # rest"
    using all not_word_brace by simp
  from a show "match_placeholder s = Some (key, rest)"
    by (simp add: t d Let_def)
qed

lemma replaceTemplateVariables_placeholder:
  assumes "key \<noteq> []" and "list_all word_char key"
  shows "replaceTemplateVariables (''{{'' @ key @ ''}}'' @ rest) values =
    (if js_in key values then text_of (JSON_stringify (js_get values key))
     else ''{{'' @ key @ ''}}'') @ replaceTemplateVariables rest values"
proof -
  have "match_placeholder (''{{'' @ key @ ''}}'' @ rest) = Some (key, rest)"
    using assms by (simp only: match_placeholder_iff) simp
  then have "match_placeholder (CHR ''{'' # CHR ''{'' # key @ ''}}'' @ rest) = Some (key, rest)"
    by simp
  then show ?thesis
    by (simp add: replacer_def text_of_def del: match_placeholder.simps)
qed

lemma replaceTemplateVariables_other:
  "match_placeholder (c # cs) = None \<Longrightarrow>
   replaceTemplateVariables (c # cs) values = c # replaceTemplateVariables cs values"
  by simp

lemma replaceTemplateVariables_plain:
  "CHR ''{'' \<notin> set template \<Longrightarrow> replaceTemplateVariables template values = template"
proof (induction template)
  case Nil
  show ?case by simp
next
  case (Cons c cs)
  then have "match_placeholder (c # cs) = None"
    by (cases cs) auto
  with Cons show ?case by simp
qed

text \<open>
  C2. The interpolator fails the claim for a placeholder that names a member of
  \<^verbatim>\<open>Object.prototype\<close>: \<^verbatim>\<open>toString\<close> is no key of the empty bag, yet
  \<^verbatim>\<open>"toString" in {}\<close> holds, the function found there has no JSON text, and the
  placeholder \<^verbatim>\<open>{{toString}}\<close> is replaced by \<^verbatim>\<open>undefined\<close> instead of being kept.
\<close>

theorem replaceTemplateVariables_inherited_key:
  "replaceTemplateVariables ''{{toString}}'' [] = ''undefined'' \<and>
   \<not> own ''toString'' [] \<and>
   replaceTemplateVariables ''{{toString}}'' [] \<noteq> ''{{toString}}''"
  by (simp add: js_run)

section \<open>The finalized prompt function\<close>

lemma reducer_fresh:
  "values < length h \<Longrightarrow>
   reducer values (length h) (accessor, h @ [acc]) key =
     (let r = (if js_in key (h ! values)
               then js_set (accessor, acc) key (js_get (h ! values) key) else (accessor, acc))
      in (fst r, h @ [snd r]))"
  by (simp add: reducer_def nth_append Let_def case_prod_unfold)

lemma reduce_fresh:
  "values < length h \<Longrightarrow>
   foldl (reducer values (length h)) (fst acc, h @ [snd acc]) keys =
     (let r = foldl (\<lambda>acc key. if js_in key (h ! values)
                                  then js_set acc key (js_get (h ! values) key) else acc) acc keys
      in (fst r, h @ [snd r]))"
proof (induction keys arbitrary: acc)
  case Nil
  show ?case by simp
next
  case (Cons key keys)
  let ?r = "if js_in key (h ! values)
            then js_set acc key (js_get (h ! values) key) else acc"
  have "reducer values (length h) (fst acc, h @ [snd acc]) key = (fst ?r, h @ [snd ?r])"
    using reducer_fresh [OF Cons.prems, of "fst acc" "snd acc" key] by (simp add: Let_def)
  then show ?case
    using Cons.IH [OF Cons.prems, of ?r] by (simp only: foldl_Cons)
qed

lemma build_eq:
  assumes "values < length h"
  shows "build this values h =
    (''<instructions>'' @ replaceTemplateVariables (b_instruction this) (h ! values)
       @ ''</instructions>'' @ examples_section (b_examples this)
       @ task_section (b_taskKeys this) (h ! values),
     if b_taskKeys this = [] then h else h @ [taskObject (b_taskKeys this) (h ! values)])"
proof -
  have "foldl (reducer values (length h)) (True, h @ [[]]) (b_taskKeys this) =
      (fst (task_state (b_taskKeys this) (h ! values)),
       h @ [taskObject (b_taskKeys this) (h ! values)])"
    using reduce_fresh [OF assms, of "(True, [])" "b_taskKeys this"]
    by (simp add: Let_def taskObject_def task_state_def)
  then show ?thesis
    by (simp add: build_def Let_def new_object_def examples_section_def
        task_section_def join_empty enumerate_map_index Number_toString_def)
qed

text \<open>
  C9. The prompt function is pure. Its text depends on the configuration and on the
  properties of the value bag only: two calls on bags with equal properties return equal
  texts, wherever the bags live and whatever else the store holds. And a call leaves the
  bag as it was (no key added, removed or rebound), as it leaves every object that existed
  before the call: the one object it writes to is the task object it creates.
\<close>

theorem build_pure:
  assumes "values < length h" and "values' < length h'" and "h' ! values' = h ! values"
  shows "fst (build this values' h') = fst (build this values h) \<and>
         snd (build this values h) ! values = h ! values \<and>
         take (length h) (snd (build this values h)) = h"
  using assms by (simp add: build_eq nth_append)

theorem build_pure_witness:
  "(0::nat) < length [[(''userId'', JNum 123)]] \<and>
   (1::nat) < length [[], [(''userId'', JNum 123)], [(''other'', JNull)]] \<and>
   [[], [(''userId'', JNum 123)], [(''other'', JNull)]] ! 1 = [[(''userId'', JNum 123)]] ! 0 \<and>
   fst (build \<lparr>b_instruction = ''Id {{userId}}'', b_examples = [], b_taskKeys = [''userId'']\<rparr>
          1 [[], [(''userId'', JNum 123)], [(''other'', JNull)]]) =
   fst (build \<lparr>b_instruction = ''Id {{userId}}'', b_examples = [], b_taskKeys = [''userId'']\<rparr>
          0 [[(''userId'', JNum 123)]]) \<and>
   snd (build \<lparr>b_instruction = ''Id {{userId}}'', b_examples = [], b_taskKeys = [''userId'']\<rparr>
          0 [[(''userId'', JNum 123)]]) = [[(''userId'', JNum 123)], [(''userId'', JNum 123)]]"
proof -
  let ?cfg = "\<lparr>b_instruction = ''Id {{userId}}'', b_examples = [], b_taskKeys = [''userId'']\<rparr>"
  have h1: "(0::nat) < length [[(''userId'', JNum 123)]]" by simp
  have h2: "(1::nat) < length [[], [(''userId'', JNum 123)], [(''other'', JNull)]]" by simp
  have h3: "[[], [(''userId'', JNum 123)], [(''other'', JNull)]] ! 1 = [[(''userId'', JNum 123)]] ! 0"
    by simp
  have same: "fst (build ?cfg 1 [[], [(''userId'', JNum 123)], [(''other'', JNull)]]) =
      fst (build ?cfg 0 [[(''userId'', JNum 123)]])"
    using build_pure [OF h1 h2 h3, of ?cfg] by (rule conjunct1)
  have store: "snd (build ?cfg 0 [[(''userId'', JNum 123)]]) =
      [[(''userId'', JNum 123)], [(''userId'', JNum 123)]]"
    by (simp add: js_run)
  from h1 h2 h3 same store show ?thesis by simp
qed

subsection \<open>The task object\<close>

lemma firsts_snoc: "firsts (ks @ [k]) = (if k \<in> set ks then firsts ks else firsts ks @ [k])"
  by (simp add: firsts_def)

lemma set_firsts: "set (firsts ks) = set ks"
  by (simp add: firsts_def)

lemma present_keys_snoc:
  "present_keys (keys @ [k]) bag =
     (if own k bag \<and> k \<notin> set keys then present_keys keys bag @ [k] else present_keys keys bag)"
  by (auto simp: present_keys_def firsts_snoc)

lemma set_present_keys: "set (present_keys keys bag) = {k \<in> set keys. own k bag}"
  by (simp add: present_keys_def set_firsts)

lemma set_entries_order: "set (entries_order ks) = set ks"
  by (auto simp: entries_order_def)

lemma array_index_inj: "array_index k = Some n \<Longrightarrow> array_index k' = Some n \<Longrightarrow> k = k'"
  by (metis array_index_def option.distinct(1) option.inject)

lemma sort_key_snoc:
  "f x \<notin> f ` set xs \<Longrightarrow> sort_key f (xs @ [x]) = insort_key f x (sort_key f xs)"
proof (induction xs)
  case Nil
  show ?case by simp
next
  case (Cons y ys)
  then have "f y \<noteq> f x" and "f x \<notin> f ` set ys" by auto
  then show ?case using Cons.IH by (simp add: insort_key_left_comm)
qed

lemma entries_order_snoc_other:
  "\<not> is_index k \<Longrightarrow> entries_order (ks @ [k]) = entries_order ks @ [k]"
  by (simp add: entries_order_def)

lemma entries_order_snoc_index:
  assumes "is_index k" "k \<notin> set ks"
  shows "entries_order (ks @ [k]) =
    insort_key index_of k (sort_key index_of (filter is_index ks)) @ filter (\<lambda>k. \<not> is_index k) ks"
proof -
  have "index_of k \<notin> index_of ` set (filter is_index ks)"
  proof
    assume "index_of k \<in> index_of ` set (filter is_index ks)"
    then obtain k' where k': "k' \<in> set ks" "is_index k'" "index_of k' = index_of k" by auto
    with assms(1) have "k' = k"
      by (auto simp: is_index_def index_of_def intro: array_index_inj)
    with k'(1) assms(2) show False by simp
  qed
  then show ?thesis using assms(1) by (simp add: entries_order_def sort_key_snoc)
qed

lemma bind_pair: "(k, snd (bind bag k)) = bind bag k"
  by (simp add: bind_def)

lemma insert_index_insort:
  assumes "array_index k = Some n" "list_all is_index S" "list_all (\<lambda>r. \<not> is_index r) R"
  shows "insert_index n k (snd (bind bag k)) (map (bind bag) (S @ R)) =
         map (bind bag) (insort_key index_of k S @ R)"
  using assms(2)
proof (induction S)
  case Nil
  show ?case
  proof (cases R)
    case Nil
    then show ?thesis by (simp add: bind_pair)
  next
    case (Cons r rs)
    with assms(3) have "array_index r = None" by (simp add: is_index_def)
    with Cons show ?thesis by (simp add: bind_def [of bag r] bind_pair)
  qed
next
  case (Cons s S)
  then obtain m where m: "array_index s = Some m" by (auto simp: is_index_def)
  from Cons have IH: "insert_index n k (snd (bind bag k)) (map (bind bag) (S @ R)) =
         map (bind bag) (insort_key index_of k S @ R)" by simp
  have "index_of k = n" "index_of s = m" using assms(1) m by (simp_all add: index_of_def)
  then show ?case using m IH by (simp add: bind_def [of bag s] bind_pair)
qed

lemma update_same:
  "map (\<lambda>(k', w). if k' = k then (k', snd (bind bag k)) else (k', w)) (map (bind bag) ks) =
   map (bind bag) ks"
  by (induction ks) (auto simp: bind_def)

lemma own_bind: "own k (map (bind bag) ks) \<longleftrightarrow> k \<in> set ks"
  by (auto simp: own_def bind_def image_iff)

lemma js_get_own: "own k bag \<Longrightarrow> js_get bag k = snd (bind bag k)"
  by (cases "map_of bag k") (auto simp: own_def js_get_def bind_def map_of_eq_None_iff)

lemma js_set_other:
  "key \<noteq> ''__proto__'' \<Longrightarrow> js_set (accessor, ps) key v = (accessor, put_property ps key v)"
  by (simp add: js_set_def)

lemma task_state_snoc:
  "task_state (keys @ [k]) bag =
     (if js_in k bag then js_set (task_state keys bag) k (js_get bag k) else task_state keys bag)"
  by (simp add: task_state_def)

lemma task_state_entries:
  "list_all (\<lambda>k. \<not> inherited k) keys \<Longrightarrow>
   task_state keys bag = (True, map (bind bag) (entries_order (present_keys keys bag)))"
proof (induction keys rule: rev_induct)
  case Nil
  show ?case by (simp add: task_state_def present_keys_def firsts_def entries_order_def)
next
  case (snoc k keys)
  let ?P = "present_keys keys bag"
  from snoc have IH: "task_state keys bag = (True, map (bind bag) (entries_order ?P))"
    and k: "\<not> inherited k" by simp_all
  from k have proto: "k \<noteq> ''__proto__''" by (auto simp: inherited_def)
  show ?case
  proof (cases "own k bag")
    case False
    with k have "\<not> js_in k bag" by (simp add: js_in_def)
    with False IH show ?thesis by (simp add: task_state_snoc present_keys_snoc)
  next
    case True
    then have "js_in k bag" by (simp add: js_in_def)
    then have step: "task_state (keys @ [k]) bag =
        (True, put_property (map (bind bag) (entries_order ?P)) k (snd (bind bag k)))"
      using IH True proto by (simp add: task_state_snoc js_get_own js_set_other)
    show ?thesis
    proof (cases "k \<in> set keys")
      case True
      with \<open>own k bag\<close> have "k \<in> set (entries_order ?P)"
        by (simp add: set_entries_order set_present_keys)
      then have "own k (map (bind bag) (entries_order ?P))"
        by (simp only: own_bind)
      then have "put_property (map (bind bag) (entries_order ?P)) k (snd (bind bag k)) =
          map (bind bag) (entries_order ?P)"
        by (simp only: put_property_def update_same if_True)
      with step True show ?thesis by (simp add: present_keys_snoc)
    next
      case False
      then have new: "k \<notin> set (entries_order ?P)" "k \<notin> set ?P"
        by (simp_all add: set_entries_order set_present_keys)
      have P': "present_keys (keys @ [k]) bag = ?P @ [k]"
        using False \<open>own k bag\<close> by (simp add: present_keys_snoc)
      show ?thesis
      proof (cases "array_index k")
        case None
        then have "\<not> is_index k" by (simp add: is_index_def)
        then have "entries_order (?P @ [k]) = entries_order ?P @ [k]"
          by (rule entries_order_snoc_other)
        with step new None P' show ?thesis
          by (simp add: put_property_def own_bind bind_pair)
      next
        case (Some n)
        then have "is_index k" by (simp add: is_index_def)
        then have "entries_order (?P @ [k]) =
            insort_key index_of k (sort_key index_of (filter is_index ?P))
              @ filter (\<lambda>k. \<not> is_index k) ?P"
          using new(2) by (rule entries_order_snoc_index)
        moreover have "insert_index n k (snd (bind bag k)) (map (bind bag) (entries_order ?P)) =
            map (bind bag) (insort_key index_of k (sort_key index_of (filter is_index ?P))
              @ filter (\<lambda>k. \<not> is_index k) ?P)"
          unfolding entries_order_def
          by (rule insert_index_insort [OF Some]) (simp_all add: list_all_iff)
        ultimately show ?thesis using step new Some P'
          by (simp add: put_property_def own_bind)
      qed
    qed
  qed
qed

lemma taskObject_entries:
  "list_all (\<lambda>k. \<not> inherited k) keys \<Longrightarrow>
   taskObject keys bag = map (bind bag) (entries_order (present_keys keys bag))"
  by (simp add: taskObject_def task_state_entries)

lemma taskObject_empty:
  "list_all (\<lambda>k. \<not> js_in k bag) keys \<Longrightarrow> taskObject keys bag = []"
  by (induction keys rule: rev_induct) (simp_all add: taskObject_def task_state_def)

text \<open>
  Where no declared key is found in the bag, the task section is still written, with
  nothing in it.
\<close>

lemma build_empty_task:
  assumes "values < length h" and "b_taskKeys this \<noteq> []"
    and "list_all (\<lambda>k. \<not> js_in k (h ! values)) (b_taskKeys this)"
  shows "fst (build this values h) =
    ''<instructions>'' @ replaceTemplateVariables (b_instruction this) (h ! values)
      @ ''</instructions>'' @ examples_section (b_examples this)
      @ [newline, newline] @ ''<task></task>''"
  using assms(2) taskObject_empty [OF assms(3)]
  by (simp add: build_eq [OF assms(1)] task_section_def join_empty)

text \<open>
  C1, as stated, fails: the task section holds the serialized task object, and a plain
  object lists its array-index keys first. Declared \<^verbatim>\<open>b\<close> then \<^verbatim>\<open>0\<close>, the prompt
  ends with \<^verbatim>\<open><task><0>y</0><b>x</b></task>\<close>, where the sub-mapping in declared order
  would give \<^verbatim>\<open><task><b>x</b><0>y</0></task>\<close>.
\<close>

theorem build_output_counterexample:
  "fst (build \<lparr>b_instruction = ''Sort'', b_examples = [], b_taskKeys = [''b'', ''0'']\<rparr> 0
         [[(''0'', JStr ''y''), (''b'', JStr ''x'')]]) =
     ''<instructions>Sort</instructions>'' @ [newline, newline] @
     ''<task><0>y</0><b>x</b></task>'' \<and>
   prompt_claimed \<lparr>b_instruction = ''Sort'', b_examples = [], b_taskKeys = [''b'', ''0'']\<rparr>
         [(''0'', JStr ''y''), (''b'', JStr ''x'')] =
     ''<instructions>Sort</instructions>'' @ [newline, newline] @
     ''<task><b>x</b><0>y</0></task>'' \<and>
   fst (build \<lparr>b_instruction = ''Sort'', b_examples = [], b_taskKeys = [''b'', ''0'']\<rparr> 0
         [[(''0'', JStr ''y''), (''b'', JStr ''x'')]]) \<noteq>
   prompt_claimed \<lparr>b_instruction = ''Sort'', b_examples = [], b_taskKeys = [''b'', ''0'']\<rparr>
         [(''0'', JStr ''y''), (''b'', JStr ''x'')]"
  by (simp add: js_run prompt_claimed_def examples_section_def submapping_claimed_def
      present_keys_def firsts_def bind_def join_empty)

text \<open>
  C1, amended. For every configuration whose task keys name no member of
  \<^verbatim>\<open>Object.prototype\<close> and every value bag (an object of the store), the prompt function
  returns the instructions section around the interpolated template; then, only if there
  are examples, two newlines and the examples section, one line per example with its
  position, its serialized input and its JSON-stringified output; then, only if there are
  task keys, two newlines and the task section around the serialized task sub-mapping:
  the declared keys that are keys of the bag, each once and bound to the bag's value, the
  array indices first in ascending numeric order and then the other keys in the order of
  their first declaration. A section that is left out contributes nothing, not even a
  separator.
\<close>

theorem build_output:
  assumes "values < length h" and "list_all (\<lambda>k. \<not> inherited k) (b_taskKeys this)"
  shows "fst (build this values h) =
    ''<instructions>'' @ replaceTemplateVariables (b_instruction this) (h ! values)
      @ ''</instructions>''
    @ (if b_examples this = [] then []
       else [newline, newline] @ ''<examples>'' @
         concat (map (\<lambda>i.
           [newline] @ ''<example index='' @ [dquote] @ digits i @ [dquote] @ ''><input>''
           @ objectToXml (input (b_examples this ! i)) None @ ''</input><output>''
           @ text_of (JSON_stringify (output (b_examples this ! i))) @ ''</output></example>'')
           [0..<length (b_examples this)])
         @ [newline] @ ''</examples>'')
    @ (if b_taskKeys this = [] then []
       else [newline, newline] @ ''<task>''
         @ objectToXml (JObj (map (bind (h ! values))
             (entries_order (present_keys (b_taskKeys this) (h ! values))))) None
         @ ''</task>'')"
  by (simp only: build_eq [OF assms(1)] fst_conv examples_section_def task_section_def
      taskObject_entries [OF assms(2)])

theorem build_output_witness:
  "(0::nat) < length [[(''7'', JBool True), (''dataType'', JStr ''user activity''),
       (''userId'', JNum 456), (''data'', JStr ''click events'')]] \<and>
   list_all (\<lambda>k. \<not> inherited k) [''userId'', ''7'', ''data''] \<and>
   fst (build \<lparr>b_instruction = ''Analyze the {{dataType}}'',
            b_examples = [\<lparr>input = JObj [(''data'', JStr ''sample'')],
                           output = JObj [(''result'', JStr ''processed'')]\<rparr>],
            b_taskKeys = [''userId'', ''7'', ''data'']\<rparr> 0
          [[(''7'', JBool True), (''dataType'', JStr ''user activity''),
            (''userId'', JNum 456), (''data'', JStr ''click events'')]]) =
   ''<instructions>Analyze the '' @ [dquote] @ ''user activity'' @ [dquote]
     @ ''</instructions>'' @ [newline, newline] @
   ''<examples>'' @ [newline] @ ''<example index='' @ [dquote] @ ''0'' @ [dquote] @
     ''><input><data>sample</data></input><output>{'' @ [dquote] @ ''result'' @ [dquote] @
     '':'' @ [dquote] @ ''processed'' @ [dquote] @ ''}</output></example>'' @ [newline] @
     ''</examples>'' @ [newline, newline] @
   ''<task><7>true</7><userId>456</userId><data>click events</data></task>''"
proof -
  let ?bag = "[(''7'', JBool True), (''dataType'', JStr ''user activity''),
       (''userId'', JNum 456), (''data'', JStr ''click events'')]"
  let ?keys = "[''userId'', ''7'', ''data'']"
  let ?cfg = "\<lparr>b_instruction = ''Analyze the {{dataType}}'',
            b_examples = [\<lparr>input = JObj [(''data'', JStr ''sample'')],
                           output = JObj [(''result'', JStr ''processed'')]\<rparr>],
            b_taskKeys = ?keys\<rparr>"
  have h1: "(0::nat) < length [?bag]" by simp
  have h2: "list_all (\<lambda>k. \<not> inherited k) (b_taskKeys ?cfg)"
    by (simp add: inherited_def Object_prototype_functions_def)
  have present: "present_keys ?keys ?bag = ?keys"
    by (simp add: present_keys_def firsts_def own_def)
  have idx: "array_index ''userId'' = None" "array_index ''data'' = None"
    "array_index ''7'' = Some 7"
    by (simp_all add: array_index_def digits_value_def digits.simps)
  have order: "entries_order ?keys = [''7'', ''userId'', ''data'']"
    by (simp add: entries_order_def is_index_def index_of_def idx)
  have "fst (build ?cfg 0 [?bag]) =
    ''<instructions>Analyze the '' @ [dquote] @ ''user activity'' @ [dquote]
     @ ''</instructions>'' @ [newline, newline] @
   ''<examples>'' @ [newline] @ ''<example index='' @ [dquote] @ ''0'' @ [dquote] @
     ''><input><data>sample</data></input><output>{'' @ [dquote] @ ''result'' @ [dquote] @
     '':'' @ [dquote] @ ''processed'' @ [dquote] @ ''}</output></example>'' @ [newline] @
     ''</examples>'' @ [newline, newline] @
   ''<task><7>true</7><userId>456</userId><data>click events</data></task>''"
    unfolding build_output [OF h1 h2]
    by (simp add: present order bind_def join_empty js_run)
  with h1 h2 show ?thesis by simp
qed

text \<open>
  C5, as stated, fails: the task object is a plain object, and a plain object lists its
  array-index keys first, in ascending numeric order. Declared \<^verbatim>\<open>2\<close> then \<^verbatim>\<open>1\<close>, the
  task section reads \<^verbatim>\<open><1>a</1><2>b</2>\<close>.
\<close>

theorem task_order_counterexample:
  "snd (build \<lparr>b_instruction = [], b_examples = [], b_taskKeys = [''2'', ''1'']\<rparr> 0
         [[(''1'', JStr ''a''), (''2'', JStr ''b'')]]) ! 1 =
     [(''1'', JStr ''a''), (''2'', JStr ''b'')] \<and>
   submapping_claimed [''2'', ''1''] [(''1'', JStr ''a''), (''2'', JStr ''b'')] =
     [(''2'', JStr ''b''), (''1'', JStr ''a'')] \<and>
   fst (build \<lparr>b_instruction = [], b_examples = [], b_taskKeys = [''2'', ''1'']\<rparr> 0
         [[(''1'', JStr ''a''), (''2'', JStr ''b'')]]) =
     ''<instructions></instructions>'' @ [newline, newline] @
     ''<task><1>a</1><2>b</2></task>''"
  by (simp add: js_run submapping_claimed_def present_keys_def firsts_def bind_def)

text \<open>
  C5, amended. For declared task keys none of which names a member of
  \<^verbatim>\<open>Object.prototype\<close>, the task object (the object the call creates, serialized into the
  task section) holds exactly the declared keys that are keys of the bag, each once and
  bound to the bag's value: the array indices among them first, in ascending numeric
  order, then the other keys in the order of their first declaration, whatever the order
  of the bag's own keys. A declared key that the bag lacks leaves no element.
\<close>

theorem task_submapping:
  assumes "values < length h" and "b_taskKeys this \<noteq> []"
    and "list_all (\<lambda>k. \<not> inherited k) (b_taskKeys this)"
  shows "snd (build this values h) ! length h =
           map (bind (h ! values)) (entries_order (present_keys (b_taskKeys this) (h ! values))) \<and>
         fst (build this values h) =
           ''<instructions>'' @ replaceTemplateVariables (b_instruction this) (h ! values)
           @ ''</instructions>'' @ examples_section (b_examples this)
           @ [newline, newline] @ ''<task>''
           @ objectToXml (JObj (snd (build this values h) ! length h)) None @ ''</task>''"
  using assms(2) taskObject_entries [OF assms(3), of "h ! values"]
  by (simp add: build_eq [OF assms(1)] task_section_def)



theorem task_submapping_witness:
  "(0::nat) < length [[(''a'', JStr ''x''), (''10'', JNum 10), (''b'', JNull), (''9'', JNum 9)]] \<and>
   [''b'', ''10'', ''a'', ''9'', ''b'', ''missing''] \<noteq> [] \<and>
   list_all (\<lambda>k. \<not> inherited k) [''b'', ''10'', ''a'', ''9'', ''b'', ''missing''] \<and>
   snd (build \<lparr>b_instruction = [], b_examples = [],
               b_taskKeys = [''b'', ''10'', ''a'', ''9'', ''b'', ''missing'']\<rparr> 0
         [[(''a'', JStr ''x''), (''10'', JNum 10), (''b'', JNull), (''9'', JNum 9)]]) ! 1 =
     [(''9'', JNum 9), (''10'', JNum 10), (''b'', JNull), (''a'', JStr ''x'')]"
proof -
  let ?bag = "[(''a'', JStr ''x''), (''10'', JNum 10), (''b'', JNull), (''9'', JNum 9)]"
  let ?keys = "[''b'', ''10'', ''a'', ''9'', ''b'', ''missing'']"
  let ?cfg = "\<lparr>b_instruction = [], b_examples = [], b_taskKeys = ?keys\<rparr>"
  have h1: "(0::nat) < length [?bag]" by simp
  have h2: "b_taskKeys ?cfg \<noteq> []" by simp
  have h3: "list_all (\<lambda>k. \<not> inherited k) (b_taskKeys ?cfg)"
    by (simp add: inherited_def Object_prototype_functions_def)
  have present: "present_keys ?keys ?bag = [''b'', ''10'', ''a'', ''9'']"
    by (simp add: present_keys_def firsts_def own_def)
  have idx: "array_index ''b'' = None" "array_index ''a'' = None"
    "array_index ''10'' = Some 10" "array_index ''9'' = Some 9"
    by (simp_all add: array_index_def digits_value_def digits.simps)
  have order: "entries_order [''b'', ''10'', ''a'', ''9''] = [''9'', ''10'', ''b'', ''a'']"
    by (simp add: entries_order_def is_index_def index_of_def idx)
  have "snd (build ?cfg 0 [?bag]) ! length [?bag] = map (bind ([?bag] ! 0)) (entries_order (present_keys (b_taskKeys ?cfg) ([?bag] ! 0)))"
    using task_submapping [OF h1 h2 h3] by (rule conjunct1)
  then have "snd (build ?cfg 0 [?bag]) ! 1 =
      [(''9'', JNum 9), (''10'', JNum 10), (''b'', JNull), (''a'', JStr ''x'')]"
    by (simp add: present order bind_def)
  with h1 h2 h3 show ?thesis by simp
qed

text \<open>
  C10. The claim fails for a task key that names a member of \<^verbatim>\<open>Object.prototype\<close>: the
  empty bag holds no key at all, yet \<^verbatim>\<open>"toString" in {}\<close> holds, and the task section
  carries the inherited function instead of being empty.
\<close>

theorem build_inherited_task_key:
  "fst (build \<lparr>b_instruction = [], b_examples = [], b_taskKeys = [''toString'']\<rparr> 0 [[]]) =
     ''<instructions></instructions>'' @ [newline, newline] @
     ''<task><toString>function toString() { [native code] }</toString></task>'' \<and>
   \<not> own ''toString'' []"
  by (simp add: js_run)

section \<open>The builder's operations\<close>

text \<open>
  C7. Each of \<open>instruction\<close>, \<open>example\<close> and \<open>taskKey\<close> returns a builder that did not
  exist before (so not its receiver) and leaves the receiver, like every builder that
  existed, as it was. The new builder has the receiver's fields but for one:
  \<open>instruction\<close> sets the template, \<open>example\<close> appends one pair to the examples,
  \<open>taskKey\<close> appends one name to the task keys.
\<close>

theorem builder_operations:
  assumes "this < length h"
  shows "(case instruction this template h of (b, h') \<Rightarrow>
            b = length h \<and> b \<noteq> this \<and> h' ! this = h ! this \<and> take (length h) h' = h \<and>
            h' ! b = \<lparr>b_instruction = template, b_examples = b_examples (h ! this),
                       b_taskKeys = b_taskKeys (h ! this)\<rparr>) \<and>
         (case example this inp out h of (b, h') \<Rightarrow>
            b = length h \<and> b \<noteq> this \<and> h' ! this = h ! this \<and> take (length h) h' = h \<and>
            h' ! b = \<lparr>b_instruction = b_instruction (h ! this),
                       b_examples = b_examples (h ! this) @ [\<lparr>input = inp, output = out\<rparr>],
                       b_taskKeys = b_taskKeys (h ! this)\<rparr>) \<and>
         (case taskKey this key h of (b, h') \<Rightarrow>
            b = length h \<and> b \<noteq> this \<and> h' ! this = h ! this \<and> take (length h) h' = h \<and>
            h' ! b = \<lparr>b_instruction = b_instruction (h ! this),
                       b_examples = b_examples (h ! this),
                       b_taskKeys = b_taskKeys (h ! this) @ [key]\<rparr>)"
proof (intro conjI)
  show "case instruction this template h of (b, h') \<Rightarrow>
            b = length h \<and> b \<noteq> this \<and> h' ! this = h ! this \<and> take (length h) h' = h \<and>
            h' ! b = \<lparr>b_instruction = template, b_examples = b_examples (h ! this),
                       b_taskKeys = b_taskKeys (h ! this)\<rparr>"
    using assms by (simp add: instruction_def new_PromptBuilder_def nth_append)
  show "case example this inp out h of (b, h') \<Rightarrow>
            b = length h \<and> b \<noteq> this \<and> h' ! this = h ! this \<and> take (length h) h' = h \<and>
            h' ! b = \<lparr>b_instruction = b_instruction (h ! this),
                       b_examples = b_examples (h ! this) @ [\<lparr>input = inp, output = out\<rparr>],
                       b_taskKeys = b_taskKeys (h ! this)\<rparr>"
    using assms by (simp add: example_def new_PromptBuilder_def nth_append)
  show "case taskKey this key h of (b, h') \<Rightarrow>
            b = length h \<and> b \<noteq> this \<and> h' ! this = h ! this \<and> take (length h) h' = h \<and>
            h' ! b = \<lparr>b_instruction = b_instruction (h ! this),
                       b_examples = b_examples (h ! this),
                       b_taskKeys = b_taskKeys (h ! this) @ [key]\<rparr>"
    using assms by (simp add: taskKey_def new_PromptBuilder_def nth_append)
qed

theorem builder_operations_witness:
  "(0::nat) < length [\<lparr>b_instruction = ''Old'', b_examples = [], b_taskKeys = [''userId'']\<rparr>] \<and>
   instruction 0 ''New'' [\<lparr>b_instruction = ''Old'', b_examples = [], b_taskKeys = [''userId'']\<rparr>] =
     (1, [\<lparr>b_instruction = ''Old'', b_examples = [], b_taskKeys = [''userId'']\<rparr>,
          \<lparr>b_instruction = ''New'', b_examples = [], b_taskKeys = [''userId'']\<rparr>]) \<and>
   example 0 (JNum 1) (JNum 2)
       [\<lparr>b_instruction = ''Old'', b_examples = [], b_taskKeys = [''userId'']\<rparr>] =
     (1, [\<lparr>b_instruction = ''Old'', b_examples = [], b_taskKeys = [''userId'']\<rparr>,
          \<lparr>b_instruction = ''Old'', b_examples = [\<lparr>input = JNum 1, output = JNum 2\<rparr>],
            b_taskKeys = [''userId'']\<rparr>]) \<and>
   taskKey 0 ''action'' [\<lparr>b_instruction = ''Old'', b_examples = [], b_taskKeys = [''userId'']\<rparr>] =
     (1, [\<lparr>b_instruction = ''Old'', b_examples = [], b_taskKeys = [''userId'']\<rparr>,
          \<lparr>b_instruction = ''Old'', b_examples = [], b_taskKeys = [''userId'', ''action'']\<rparr>])"
  using builder_operations
    [of 0 "[\<lparr>b_instruction = ''Old'', b_examples = [], b_taskKeys = [''userId'']\<rparr>]"
        "''New''" "JNum 1" "JNum 2" "''action''"]
  by (simp add: instruction_def example_def taskKey_def new_PromptBuilder_def)

section \<open>Inherited names as task keys\<close>

text \<open>
  The inherited \<^verbatim>\<open>constructor\<close> is the function \<^verbatim>\<open>Object\<close>. Assigning
  \<^verbatim>\<open>__proto__\<close> to the task object creates no property while the accessor is in
  reach; once a first assignment has made \<^verbatim>\<open>null\<close> the prototype, a second one
  creates the property.
\<close>

lemma inherited_task_keys:
  "fst (build \<lparr>b_instruction = [], b_examples = [], b_taskKeys = [''constructor'']\<rparr> 0 [[]]) =
     ''<instructions></instructions>'' @ [newline, newline] @
     ''<task><constructor>function Object() { [native code] }</constructor></task>''"
  "fst (build \<lparr>b_instruction = [], b_examples = [], b_taskKeys = [''__proto__'', ''__proto__'']\<rparr>
     0 [[]]) =
     ''<instructions></instructions>'' @ [newline, newline] @ ''<task></task>''"
  "fst (build \<lparr>b_instruction = [], b_examples = [], b_taskKeys = [''__proto__'', ''__proto__'']\<rparr>
     0 [[(''__proto__'', JNull)]]) =
     ''<instructions></instructions>'' @ [newline, newline] @
     ''<task><__proto__></__proto__></task>''"
  "fst (build \<lparr>b_instruction = [], b_examples = [], b_taskKeys = [''__proto__'', ''__proto__'']\<rparr>
     0 [[(''__proto__'', JNum 1)]]) =
     ''<instructions></instructions>'' @ [newline, newline] @ ''<task></task>''"
  by (simp_all add: js_run)

section \<open>The repository's tests\<close>

text \<open>
  The expectations of \<^verbatim>\<open>builder.test.ts\<close> that fix an output exactly, evaluated in the
  embedding.
\<close>

lemma tests_replaceTemplateVariables:
  "replaceTemplateVariables ''Hello {{name}}'' [(''name'', JStr ''World'')] =
     ''Hello '' @ [dquote] @ ''World'' @ [dquote]"
  "replaceTemplateVariables ''Hello {{name}}, you are {{age}}''
     [(''name'', JStr ''Alice''), (''age'', JNum 30)] =
     ''Hello '' @ [dquote] @ ''Alice'' @ [dquote] @ '', you are 30''"
  "replaceTemplateVariables ''Hello {{name}}, you are {{age}}'' [(''name'', JStr ''Alice'')] =
     ''Hello '' @ [dquote] @ ''Alice'' @ [dquote] @ '', you are {{age}}''"
  "replaceTemplateVariables ''User: {{user}}''
     [(''user'', JObj [(''name'', JStr ''Bob''), (''age'', JNum 25)])] =
     ''User: {'' @ [dquote] @ ''name'' @ [dquote] @ '':'' @ [dquote] @ ''Bob'' @ [dquote] @ '','' @
       [dquote] @ ''age'' @ [dquote] @ '':25}''"
  "replaceTemplateVariables ''Items: {{items}}'' [(''items'', JArr [JNum 1, JNum 2, JNum 3])] =
     ''Items: [1,2,3]''"
  "replaceTemplateVariables ''Active: {{active}}'' [(''active'', JBool True)] = ''Active: true''"
  "replaceTemplateVariables ''Count: {{count}}'' [(''count'', JNum 42)] = ''Count: 42''"
  "replaceTemplateVariables [] [(''name'', JStr ''Test'')] = []"
  "replaceTemplateVariables ''Hello {{name}}'' [] = ''Hello {{name}}''"
  "replaceTemplateVariables ''Hello World'' [(''name'', JStr ''Test'')] = ''Hello World''"
  by (simp_all add: js_run)

lemma tests_objectToXml:
  "objectToXml (JStr ''hello'') None = ''hello''"
  "objectToXml (JArr [JNum 1, JNum 2, JNum 3]) None = ''123''"
  "objectToXml (JArr [JStr ''a'', JStr ''b'']) (Some [(''index'', JNum 0)]) = ''ab''"
  "objectToXml (JArr []) None = []"
  "objectToXml (JObj [(''name'', JStr ''Alice''), (''age'', JNum 30)]) None =
     ''<name>Alice</name><age>30</age>''"
  "objectToXml (JObj [(''message'', JStr (''Hello <world> & '' @ [squote] @ ''test'' @ [squote]))]) None =
     ''<message>Hello &lt;world&gt; &amp; &apos;test&apos;</message>''"
  "objectToXml (JObj [(''user'', JObj [(''name'', JStr ''Bob''), (''age'', JNum 25)])]) None =
     ''<user><name>Bob</name><age>25</age></user>''"
  "objectToXml (JObj [(''items'', JArr [JNum 1, JNum 2, JNum 3])]) None = ''<items>123</items>''"
  "objectToXml (JObj []) None = []"
  "objectToXml (JObj [(''name'', JStr ''Test'')]) (Some [(''index'', JNum 5)]) =
     ''<name index='' @ [dquote] @ ''5'' @ [dquote] @ ''>Test</name>''"
  "objectToXml (JObj [(''user'', JObj [(''name'', JStr ''Charlie''),
       (''tags'', JArr [JStr ''admin'', JStr ''user'']), (''active'', JBool True)])]) None =
     ''<user><name>Charlie</name><tags>adminuser</tags><active>true</active></user>''"
  by (simp_all add: js_run)

lemma tests_builder:
  "fst (build \<lparr>b_instruction = ''This is a test prompt'', b_examples = [], b_taskKeys = []\<rparr> 0 [[]])
     = ''<instructions>This is a test prompt</instructions>''"
  "fst (build \<lparr>b_instruction = ''Process this data'', b_examples = [],
        b_taskKeys = [''userId'', ''action'', ''timestamp'']\<rparr> 0
        [[(''userId'', JNum 123), (''action'', JStr ''login'')]])
     = ''<instructions>Process this data</instructions>'' @ [newline, newline] @
       ''<task><userId>123</userId><action>login</action></task>''"
  by (simp_all add: js_run)

end
